theory Spec2Isabelle
  imports Complex_Main "HOL-Library.Multiset" "HOL-Library.Char_ord" "HOL-Library.List_Lexorder"
begin

section \<open>Exceptions\<close>

text \<open>
  The Python exceptions that the aggregation and rendering code of \<^verbatim>\<open>tools.py\<close> can
  raise. The builtin \<^verbatim>\<open>exit(n)\<close> raises \<^verbatim>\<open>SystemExit(n)\<close>, so it is an
  exception as well. A computation that may raise returns \<open>exn + 'a\<close>, with \<open>Inl\<close> the
  exception.
\<close>

datatype exn =
    TypeError
  | AttributeError
  | ValueError
  | IndexError
  | KeyError
  | ZeroDivisionError
  | BrokenPipeError
  | SystemExit int

definition bind_exn :: "exn + 'a \<Rightarrow> ('a \<Rightarrow> exn + 'b) \<Rightarrow> exn + 'b" where
  "bind_exn r f = (case r of Inl e \<Rightarrow> Inl e | Inr v \<Rightarrow> f v)"

section \<open>MaxMin: the running extremes of a stream\<close>

text \<open>
  \<^verbatim>\<open>class MaxMin\<close>: the attributes \<^verbatim>\<open>min\<close> and \<^verbatim>\<open>max\<close> are \<^verbatim>\<open>None\<close> or
  a value. The values only need to be comparable; the trackers of the program hold
  longitudes and latitudes.
\<close>

record 'a MaxMin =
  minv :: "'a option"
  maxv :: "'a option"

definition MaxMin_init :: "'a option \<Rightarrow> 'a MaxMin" where
  "MaxMin_init starting = \<lparr>minv = starting, maxv = starting\<rparr>"

text \<open>\<^verbatim>\<open>valid\<close> tests \<^verbatim>\<open>self.min\<close> twice, as the source does.\<close>

definition valid :: "'a MaxMin \<Rightarrow> bool" where
  "valid m = (minv m \<noteq> None \<and> minv m \<noteq> None)"

text \<open>
  \<^verbatim>\<open>add\<close>: comparing a value with \<^verbatim>\<open>None\<close> raises \<^verbatim>\<open>TypeError\<close> in Python 3,
  which is what happens in a state with \<^verbatim>\<open>min\<close> set and \<^verbatim>\<open>max\<close> unset.
\<close>

definition add :: "'a::linorder MaxMin \<Rightarrow> 'a \<Rightarrow> exn + 'a MaxMin" where
  "add m v =
     (if \<not> valid m then Inr (m\<lparr>minv := Some v, maxv := Some v\<rparr>)
      else case maxv m of
        None \<Rightarrow> Inl TypeError
      | Some hi \<Rightarrow>
          (let m1 = (if v > hi then m\<lparr>maxv := Some v\<rparr> else m) in
           case minv m1 of
             None \<Rightarrow> Inl TypeError
           | Some lo \<Rightarrow> Inr (if v < lo then m1\<lparr>minv := Some v\<rparr> else m1)))"

text \<open>Feeding a sequence of values, one \<^verbatim>\<open>add\<close> after the other.\<close>

fun add_all :: "'a::linorder MaxMin \<Rightarrow> 'a list \<Rightarrow> exn + 'a MaxMin" where
  "add_all m [] = Inr m"
| "add_all m (v # vs) = bind_exn (add m v) (\<lambda>m'. add_all m' vs)"

section \<open>Dictionaries\<close>

text \<open>
  A Python \<^verbatim>\<open>dict\<close> keeps its keys in insertion order, so it is an association list
  with distinct keys: assigning to a key that is present replaces its value in place, and
  assigning to a new key appends an entry.
\<close>

fun dict_set :: "'k \<Rightarrow> 'v \<Rightarrow> ('k \<times> 'v) list \<Rightarrow> ('k \<times> 'v) list" where
  "dict_set k v [] = [(k, v)]"
| "dict_set k v ((k', v') # d) = (if k' = k then (k, v) # d else (k', v') # dict_set k v d)"

definition dict_get :: "('k \<times> 'v) list \<Rightarrow> 'k \<Rightarrow> exn + 'v" where
  "dict_get d k = (case map_of d k of None \<Rightarrow> Inl KeyError | Some v \<Rightarrow> Inr v)"

text \<open>
  \<^verbatim>\<open>d[k] += 1\<close> on a \<^verbatim>\<open>defaultdict(int)\<close>: reading a missing key yields \<^verbatim>\<open>0\<close>.
\<close>

definition dd_incr :: "'k \<Rightarrow> ('k \<times> int) list \<Rightarrow> ('k \<times> int) list" where
  "dd_incr k d = dict_set k ((case map_of d k of None \<Rightarrow> 0 | Some n \<Rightarrow> n) + 1) d"

section \<open>Sentences\<close>

text \<open>
  Modelled from the spec: the Sentence record, whose class lives in the package's
  \<^verbatim>\<open>__init__.py\<close> and is not part of \<^verbatim>\<open>tools.py\<close>. The spec gives its interface:
  \<^verbatim>\<open>type_id()\<close> is an integer, the sender identifier (\<^verbatim>\<open>sentence['mmsi']\<close>) is a
  string or absent, \<^verbatim>\<open>location()\<close> is an optional (longitude, latitude) pair, and field
  access by name (\<^verbatim>\<open>sentence['shipname']\<close>, \<^verbatim>\<open>sentence['destination']\<close>) returns a
  present value or absent. Absent is Python's \<^verbatim>\<open>None\<close>. Coordinates are binary
  floating-point numbers, which are rationals.
\<close>

record sentence =
  type_id :: int
  mmsi :: "string option"
  shipname :: "string option"
  destination :: "string option"
  location :: "(rat \<times> rat) option"

section \<open>Fields and SenderInfo\<close>

text \<open>
  The characters that \<^verbatim>\<open>str.strip()\<close> removes, among the code points below 256:
  tab to carriage return, the four separators 28 to 31, the space, and the code points 133
  and 160.
\<close>

definition is_space :: "char \<Rightarrow> bool" where
  "is_space c =
     (let n = (of_char c :: nat)
      in (9 \<le> n \<and> n \<le> 13) \<or> (28 \<le> n \<and> n \<le> 32) \<or> n = 133 \<or> n = 160)"

definition strip :: "string \<Rightarrow> string" where
  "strip s = rev (dropWhile is_space (rev (dropWhile is_space s)))"

record Fields =
  vals :: "(string \<times> string) list"

definition Fields_init :: Fields where
  "Fields_init = \<lparr>vals = []\<rparr>"

definition Fields_getitem :: "Fields \<Rightarrow> string \<Rightarrow> exn + string" where
  "Fields_getitem f key = dict_get (vals f) key"

text \<open>
  \<^verbatim>\<open>__setitem__\<close> calls \<^verbatim>\<open>value.strip()\<close> first: on \<^verbatim>\<open>None\<close> that is an
  \<^verbatim>\<open>AttributeError\<close>. The test that follows is the source's
  \<^verbatim>\<open>key and value and len(value) > 0\<close>.
\<close>

definition Fields_setitem :: "Fields \<Rightarrow> string \<Rightarrow> string option \<Rightarrow> exn + Fields" where
  "Fields_setitem f key v =
     (case v of
        None \<Rightarrow> Inl AttributeError
      | Some s \<Rightarrow>
          (let v' = strip s
           in if key \<noteq> [] \<and> v' \<noteq> [] \<and> length v' > 0
              then Inr (f\<lparr>vals := dict_set key v' (vals f)\<rparr>)
              else Inr f))"

record SenderInfo =
  sender_mmsi :: "string option"
  sender_sentence_count :: int
  sender_type_counts :: "(int \<times> int) list"
  sender_fields :: Fields

definition SenderInfo_init :: SenderInfo where
  "SenderInfo_init =
     \<lparr>sender_mmsi = None, sender_sentence_count = 0, sender_type_counts = [],
      sender_fields = Fields_init\<rparr>"

text \<open>\<^verbatim>\<open>not self.mmsi\<close> holds for \<^verbatim>\<open>None\<close> and for the empty string.\<close>

definition SenderInfo_add :: "SenderInfo \<Rightarrow> sentence \<Rightarrow> exn + SenderInfo" where
  "SenderInfo_add s sen =
     (let s1 = (if sender_mmsi s = None \<or> sender_mmsi s = Some []
                then s\<lparr>sender_mmsi := mmsi sen\<rparr> else s);
          s2 = s1\<lparr>sender_sentence_count := sender_sentence_count s1 + 1\<rparr>;
          s3 = s2\<lparr>sender_type_counts := dd_incr (type_id sen) (sender_type_counts s2)\<rparr>
      in if type_id sen = 5
         then bind_exn (Fields_setitem (sender_fields s3) ''shipname'' (shipname sen)) (\<lambda>f1.
              bind_exn (Fields_setitem f1 ''destination'' (destination sen)) (\<lambda>f2.
              Inr (s3\<lparr>sender_fields := f2\<rparr>)))
         else Inr s3)"

fun SenderInfo_add_all :: "SenderInfo \<Rightarrow> sentence list \<Rightarrow> exn + SenderInfo" where
  "SenderInfo_add_all s [] = Inr s"
| "SenderInfo_add_all s (sen # sens) =
     bind_exn (SenderInfo_add s sen) (\<lambda>s'. SenderInfo_add_all s' sens)"

section \<open>GeoInfo and SentencesInfo\<close>

record GeoInfo =
  lon :: "rat MaxMin"
  lat :: "rat MaxMin"

definition GeoInfo_init :: GeoInfo where
  "GeoInfo_init = \<lparr>lon = MaxMin_init None, lat = MaxMin_init None\<rparr>"

definition GeoInfo_add :: "GeoInfo \<Rightarrow> rat \<times> rat \<Rightarrow> exn + GeoInfo" where
  "GeoInfo_add g point =
     bind_exn (add (lon g) (fst point)) (\<lambda>lo.
     bind_exn (add (lat g) (snd point)) (\<lambda>la.
     Inr \<lparr>lon = lo, lat = la\<rparr>))"

definition GeoInfo_valid :: "GeoInfo \<Rightarrow> bool" where
  "GeoInfo_valid g = (valid (lon g) \<and> valid (lat g))"

record SentencesInfo =
  sentence_count :: int
  type_counts :: "(int \<times> int) list"
  sender_counts :: "(string option \<times> int) list"
  geo_info :: GeoInfo

definition SentencesInfo_init :: SentencesInfo where
  "SentencesInfo_init =
     \<lparr>sentence_count = 0, type_counts = [], sender_counts = [], geo_info = GeoInfo_init\<rparr>"

text \<open>\<^verbatim>\<open>if loc:\<close> holds for every pair, and fails for \<^verbatim>\<open>None\<close> only.\<close>

definition SentencesInfo_add :: "SentencesInfo \<Rightarrow> sentence \<Rightarrow> exn + SentencesInfo" where
  "SentencesInfo_add s sen =
     (let s1 = s\<lparr>sentence_count := sentence_count s + 1\<rparr>;
          s2 = s1\<lparr>type_counts := dd_incr (type_id sen) (type_counts s1)\<rparr>;
          s3 = s2\<lparr>sender_counts := dd_incr (mmsi sen) (sender_counts s2)\<rparr>
      in case location sen of
           None \<Rightarrow> Inr s3
         | Some loc \<Rightarrow> bind_exn (GeoInfo_add (geo_info s3) loc) (\<lambda>g. Inr (s3\<lparr>geo_info := g\<rparr>)))"

fun SentencesInfo_add_all :: "SentencesInfo \<Rightarrow> sentence list \<Rightarrow> exn + SentencesInfo" where
  "SentencesInfo_add_all s [] = Inr s"
| "SentencesInfo_add_all s (sen # sens) =
     bind_exn (SentencesInfo_add s sen) (\<lambda>s'. SentencesInfo_add_all s' sens)"

section \<open>Floating-point arithmetic\<close>

text \<open>
  Python's \<^verbatim>\<open>float\<close> and numpy's \<^verbatim>\<open>float64\<close> are IEEE 754 binary64 numbers. Every
  finite one is a rational, and every arithmetic operation returns the exact result rounded
  to the nearest number with a 53-bit significand, ties to the even significand. \<open>fl\<close> is
  that rounding. The exponent is left unbounded: overflow to infinity, subnormal numbers and
  NaN are outside this model.
\<close>

fun bitlen :: "nat \<Rightarrow> nat" where
  "bitlen n = (if n = 0 then 0 else Suc (bitlen (n div 2)))"

declare bitlen.simps [simp del]

definition pow2 :: "int \<Rightarrow> rat" where
  "pow2 e = (if 0 \<le> e then 2 ^ nat e else 1 / 2 ^ nat (- e))"

text \<open>\<open>ilog2 x\<close> is the integer \<open>k\<close> with \<open>2 ^ k \<le> x < 2 ^ (k + 1)\<close>, for positive \<open>x\<close>.\<close>

definition ilog2 :: "rat \<Rightarrow> int" where
  "ilog2 x =
     (let (p, q) = quotient_of x;
          k = int (bitlen (nat p)) - int (bitlen (nat q))
      in if pow2 k \<le> x then k else k - 1)"

definition round_half_even :: "rat \<Rightarrow> int" where
  "round_half_even x =
     (let f = \<lfloor>x\<rfloor>; d = x - of_int f
      in if d < 1 / 2 then f
         else if 1 / 2 < d then f + 1
         else if even f then f else f + 1)"

definition fl :: "rat \<Rightarrow> rat" where
  "fl x =
     (if x = 0 then 0
      else let e = ilog2 \<bar>x\<bar> - 52
           in sgn x * of_int (round_half_even (\<bar>x\<bar> / pow2 e)) * pow2 e)"

text \<open>\<^verbatim>\<open>sys.float_info.epsilon\<close>, the gap between 1 and the next float.\<close>

definition epsilon :: rat where
  "epsilon = 1 / 2 ^ 52"

text \<open>\<^verbatim>\<open>int(x)\<close> on a float truncates towards zero.\<close>

definition py_int :: "rat \<Rightarrow> int" where
  "py_int x = (if 0 \<le> x then \<lfloor>x\<rfloor> else \<lceil>x\<rceil>)"

section \<open>The numpy functions that Bucketer calls\<close>

text \<open>
  \<^verbatim>\<open>numpy.linspace(start, stop, num)\<close> with the default \<^verbatim>\<open>endpoint=True\<close>, following
  numpy's implementation: a negative \<^verbatim>\<open>num\<close> is a \<^verbatim>\<open>ValueError\<close>;
  \<^verbatim>\<open>div = num - 1\<close>; \<^verbatim>\<open>delta = stop - start\<close>; the samples are
  \<^verbatim>\<open>arange(0, num) * step + start\<close> with \<^verbatim>\<open>step = delta / div\<close> (or
  \<^verbatim>\<open>arange(0, num) / div * delta + start\<close> when the step is zero, and
  \<^verbatim>\<open>arange(0, num) * delta + start\<close> when \<^verbatim>\<open>div\<close> is not positive); the last sample
  is then overwritten with \<^verbatim>\<open>stop\<close> when \<^verbatim>\<open>num > 1\<close>. Each operation rounds. The
  indices of \<^verbatim>\<open>arange\<close> are exact as floats (below \<open>2 ^ 53\<close>).
\<close>

definition linspace :: "rat \<Rightarrow> rat \<Rightarrow> int \<Rightarrow> exn + rat list" where
  "linspace start stop num =
     (if num < 0 then Inl ValueError
      else
        let start' = fl start;
            stop' = fl stop;
            dv = num - 1;
            delta = fl (stop' - start');
            idx = map rat_of_int [0..num - 1];
            y = (if dv > 0
                 then (let step = fl (delta / of_int dv)
                       in if step = 0
                          then map (\<lambda>i. fl (fl (i / of_int dv) * delta)) idx
                          else map (\<lambda>i. fl (i * step)) idx)
                 else map (\<lambda>i. fl (i * delta)) idx);
            y' = map (\<lambda>v. fl (v + start')) y
        in Inr (if num > 1 then butlast y' @ [stop'] else y'))"

text \<open>
  \<^verbatim>\<open>numpy.digitize(x, bins)\<close> with the default \<^verbatim>\<open>right=False\<close>. numpy first classifies
  the bins: 1 for non-decreasing (also when empty or constant), -1 for non-increasing, 0
  for neither, which is a \<^verbatim>\<open>ValueError\<close>. For non-decreasing bins the result is
  \<^verbatim>\<open>searchsorted(bins, x, side='right')\<close>, the index \<open>i\<close> with
  \<open>bins[i-1] \<le> x < bins[i]\<close>; for non-increasing bins it is
  \<^verbatim>\<open>len(bins) - searchsorted(bins[::-1], x, side='right')\<close>, the index \<open>i\<close> with
  \<open>bins[i-1] > x \<ge> bins[i]\<close>.
\<close>

fun nondecreasing :: "rat list \<Rightarrow> bool" where
  "nondecreasing (a # b # xs) = (a \<le> b \<and> nondecreasing (b # xs))"
| "nondecreasing _ = True"

fun nonincreasing :: "rat list \<Rightarrow> bool" where
  "nonincreasing (a # b # xs) = (b \<le> a \<and> nonincreasing (b # xs))"
| "nonincreasing _ = True"

definition check_array_monotonic :: "rat list \<Rightarrow> int" where
  "check_array_monotonic a =
     (case a of
        [] \<Rightarrow> 1
      | first # _ \<Rightarrow>
          (case dropWhile (\<lambda>v. v = first) a of
             [] \<Rightarrow> 1
           | nxt # rest \<Rightarrow>
               if first < nxt
               then (if nondecreasing (nxt # rest) then 1 else 0)
               else (if nonincreasing (nxt # rest) then - 1 else 0)))"

definition searchsorted_right :: "rat list \<Rightarrow> rat \<Rightarrow> int" where
  "searchsorted_right a v = int (length (takeWhile (\<lambda>b. b \<le> v) a))"

definition digitize :: "rat \<Rightarrow> rat list \<Rightarrow> exn + int" where
  "digitize x bs =
     (let mono = check_array_monotonic bs
      in if mono = 0 then Inl ValueError
         else if mono = - 1 then Inr (int (length bs) - searchsorted_right (rev bs) x)
         else Inr (searchsorted_right bs x))"

section \<open>Bucketer\<close>

record Bucketer =
  min_val :: rat
  max_val :: rat
  bucket_count :: int
  max_buckets :: int
  bins :: "rat list"

definition Bucketer_init :: "rat \<Rightarrow> rat \<Rightarrow> int \<Rightarrow> exn + Bucketer" where
  "Bucketer_init lo hi n =
     bind_exn
       (if lo = hi
        then linspace (fl (lo - 1)) (fl (hi + 1)) (n + 1)
        else linspace lo (fl (hi + epsilon)) (n + 1))
       (\<lambda>bs. Inr \<lparr>min_val = lo, max_val = hi, bucket_count = n, max_buckets = n - 1,
                   bins = bs\<rparr>)"

definition bucket :: "Bucketer \<Rightarrow> rat \<Rightarrow> exn + int" where
  "bucket b v =
     bind_exn (digitize v (bins b)) (\<lambda>d.
       let result = d - 1
       in if result > max_buckets b then Inr (max_buckets b) else Inr result)"

section \<open>DensityMap\<close>

record DensityMap =
  width :: int
  height :: int
  indent :: string
  map_geo_info :: GeoInfo
  points :: "(rat \<times> rat) list"

text \<open>The defaults of the constructor are \<^verbatim>\<open>width=60, height=20, indent=""\<close>.\<close>

definition DensityMap_init :: "int \<Rightarrow> int \<Rightarrow> string \<Rightarrow> DensityMap" where
  "DensityMap_init w h ind =
     \<lparr>width = w, height = h, indent = ind, map_geo_info = GeoInfo_init, points = []\<rparr>"

definition DensityMap_default :: DensityMap where
  "DensityMap_default = DensityMap_init 60 20 []"

definition DensityMap_add :: "DensityMap \<Rightarrow> rat \<times> rat \<Rightarrow> exn + DensityMap" where
  "DensityMap_add d point =
     (let d1 = d\<lparr>points := points d @ [point]\<rparr>
      in bind_exn (GeoInfo_add (map_geo_info d1) point) (\<lambda>g. Inr (d1\<lparr>map_geo_info := g\<rparr>)))"

text \<open>
  Python list indexing: a negative index counts from the end, and an index outside
  \<open>[-n, n)\<close> raises \<^verbatim>\<open>IndexError\<close>.
\<close>

definition py_index :: "nat \<Rightarrow> int \<Rightarrow> exn + nat" where
  "py_index n i =
     (let j = (if i < 0 then int n + i else i)
      in if 0 \<le> j \<and> j < int n then Inr (nat j) else Inl IndexError)"

text \<open>\<^verbatim>\<open>results[y][x] += 1\<close>\<close>

definition incr_cell :: "int list list \<Rightarrow> int \<Rightarrow> int \<Rightarrow> exn + int list list" where
  "incr_cell results y x =
     bind_exn (py_index (length results) y) (\<lambda>r.
       let row = results ! r
       in bind_exn (py_index (length row) x) (\<lambda>c.
            Inr (results[r := row[c := row ! c + 1]])))"

text \<open>The loop \<^verbatim>\<open>for lon, lat in self.points\<close> of \<^verbatim>\<open>to_counts\<close>.\<close>

fun count_points ::
  "Bucketer \<Rightarrow> Bucketer \<Rightarrow> int \<Rightarrow> int list list \<Rightarrow> (rat \<times> rat) list \<Rightarrow> exn + int list list"
where
  "count_points xb yb h results [] = Inr results"
| "count_points xb yb h results (p # ps) =
     bind_exn (bucket xb (fst p)) (\<lambda>x.
     bind_exn (bucket yb (snd p)) (\<lambda>yi.
     bind_exn (incr_cell results (h - 1 - yi) x) (\<lambda>results'.
     count_points xb yb h results' ps)))"

text \<open>
  Reading an attribute that is \<^verbatim>\<open>None\<close> into the arithmetic of the Bucketer constructor
  raises \<^verbatim>\<open>TypeError\<close>.
\<close>

definition the_float :: "rat option \<Rightarrow> exn + rat" where
  "the_float v = (case v of None \<Rightarrow> Inl TypeError | Some x \<Rightarrow> Inr x)"

definition make_bucketer :: "rat MaxMin \<Rightarrow> int \<Rightarrow> exn + Bucketer" where
  "make_bucketer m n =
     bind_exn (the_float (minv m)) (\<lambda>lo.
     bind_exn (the_float (maxv m)) (\<lambda>hi.
     Bucketer_init lo hi n))"

definition to_counts :: "DensityMap \<Rightarrow> exn + int list list" where
  "to_counts d =
     (let results = replicate (nat (height d)) (replicate (nat (width d)) (0::int))
      in if GeoInfo_valid (map_geo_info d)
         then bind_exn (make_bucketer (lon (map_geo_info d)) (width d)) (\<lambda>xb.
              bind_exn (make_bucketer (lat (map_geo_info d)) (height d)) (\<lambda>yb.
              count_points xb yb (height d) results (points d)))
         else Inr results)"

text \<open>\<^verbatim>\<open>max\<close> of a list raises \<^verbatim>\<open>ValueError\<close> on the empty list.\<close>

definition py_max :: "int list \<Rightarrow> exn + int" where
  "py_max xs = (case xs of [] \<Rightarrow> Inl ValueError | x # ys \<Rightarrow> Inr (fold max ys x))"

text \<open>A list comprehension whose element expression may raise.\<close>

fun map_exn :: "('a \<Rightarrow> exn + 'b) \<Rightarrow> 'a list \<Rightarrow> exn + 'b list" where
  "map_exn f [] = Inr []"
| "map_exn f (x # xs) =
     bind_exn (f x) (\<lambda>y. bind_exn (map_exn f xs) (\<lambda>ys. Inr (y # ys)))"

text \<open>\<^verbatim>\<open>str\<close> of an integer.\<close>

definition digit_char :: "nat \<Rightarrow> char" where
  "digit_char d = char_of (48 + d)"

fun str_nat :: "nat \<Rightarrow> string" where
  "str_nat n = (if n < 10 then [digit_char n] else str_nat (n div 10) @ [digit_char (n mod 10)])"

definition str_int :: "int \<Rightarrow> string" where
  "str_int i = (if i < 0 then CHR ''-'' # str_nat (nat (- i)) else str_nat (nat i))"

text \<open>
  \<^verbatim>\<open>value_to_text\<close>: the product \<^verbatim>\<open>9.99999 * value\<close> and the quotient by
  \<^verbatim>\<open>max_count\<close> are float operations, and dividing by zero raises
  \<^verbatim>\<open>ZeroDivisionError\<close>.
\<close>

definition value_to_text :: "int \<Rightarrow> int \<Rightarrow> exn + string" where
  "value_to_text max_count v =
     (if v = 0 then Inr '' ''
      else if max_count = 0 then Inl ZeroDivisionError
      else Inr (str_int (py_int
             (fl (fl (fl (999999 / 100000) * fl (of_int v)) / fl (of_int max_count))))))"

definition to_text :: "DensityMap \<Rightarrow> exn + string list" where
  "to_text d =
     bind_exn (to_counts d) (\<lambda>counts.
     bind_exn (map_exn py_max counts) (\<lambda>row_maxima.
     bind_exn (py_max row_maxima) (\<lambda>max_count.
       let border = indent d @ ''+'' @ replicate (nat (width d)) (CHR ''-'') @ ''+''
       in bind_exn
            (map_exn (\<lambda>row.
               bind_exn (map_exn (value_to_text max_count) row) (\<lambda>cells.
                 Inr (indent d @ ''|'' @ concat cells @ ''|''))) counts)
            (\<lambda>rows. Inr ([border] @ rows @ [border])))))"

section \<open>Printing to a sink that may close\<close>

text \<open>
  Standard output is a sink: it holds the lines written so far and the number of further
  writes its consumer accepts (\<open>None\<close> when the consumer never goes away). A \<^verbatim>\<open>print\<close>
  to a sink whose consumer is gone raises \<^verbatim>\<open>BrokenPipeError\<close> and writes nothing. A
  computation that prints takes the sink and returns its result, or the exception it
  raised, together with the sink as it left it.
\<close>

record sink =
  written :: "string list"
  accepts :: "nat option"

type_synonym 'a io = "sink \<Rightarrow> (exn + 'a) \<times> sink"

definition return_io :: "'a \<Rightarrow> 'a io" where
  "return_io v s = (Inr v, s)"

definition lift_io :: "exn + 'a \<Rightarrow> 'a io" where
  "lift_io r s = (r, s)"

definition bind_io :: "'a io \<Rightarrow> ('a \<Rightarrow> 'b io) \<Rightarrow> 'b io" where
  "bind_io m f s = (case m s of (Inl e, s') \<Rightarrow> (Inl e, s') | (Inr v, s') \<Rightarrow> f v s')"

definition print :: "string \<Rightarrow> unit io" where
  "print line s =
     (case accepts s of
        None \<Rightarrow> (Inr (), s\<lparr>written := written s @ [line]\<rparr>)
      | Some 0 \<Rightarrow> (Inl BrokenPipeError, s)
      | Some (Suc n) \<Rightarrow> (Inr (), s\<lparr>written := written s @ [line], accepts := Some n\<rparr>))"

text \<open>A \<^verbatim>\<open>for\<close> loop whose body prints.\<close>

fun for_each :: "('a \<Rightarrow> unit io) \<Rightarrow> 'a list \<Rightarrow> unit io" where
  "for_each f [] = return_io ()"
| "for_each f (x # xs) = bind_io (f x) (\<lambda>_. for_each f xs)"



section \<open>Reports\<close>

text \<open>
  Right alignment in a field of a minimum width, as \<^verbatim>\<open>{:2d}\<close>, \<^verbatim>\<open>{:8d}\<close> and
  \<^verbatim>\<open>{:>11s}\<close> do.
\<close>

definition rjust :: "nat \<Rightarrow> string \<Rightarrow> string" where
  "rjust n s = replicate (n - length s) (CHR '' '') @ s"


text \<open>
  \<^verbatim>\<open>"{}".format(x)\<close> for an optional value: \<^verbatim>\<open>None\<close> prints as \<^verbatim>\<open>None\<close>. The
  decimal text of a float is a parameter \<open>str_float\<close> of the reports.
\<close>

definition str_opt :: "('a \<Rightarrow> string) \<Rightarrow> 'a option \<Rightarrow> string" where
  "str_opt f v = (case v of None \<Rightarrow> ''None'' | Some x \<Rightarrow> f x)"

definition GeoInfo_report :: "(rat \<Rightarrow> string) \<Rightarrow> GeoInfo \<Rightarrow> string \<Rightarrow> unit io" where
  "GeoInfo_report str_float g ind =
     bind_io (print (ind @ ''    top left: '' @ str_opt str_float (maxv (lat g)) @ '', ''
                       @ str_opt str_float (minv (lon g)))) (\<lambda>_.
     print (ind @ ''bottom right: '' @ str_opt str_float (minv (lat g)) @ '', ''
              @ str_opt str_float (maxv (lon g))))"

definition SentencesInfo_report :: "(rat \<Rightarrow> string) \<Rightarrow> SentencesInfo \<Rightarrow> unit io" where
  "SentencesInfo_report str_float s =
     bind_io (print (''Found '' @ str_int (int (length (sender_counts s))) @ '' senders in ''
                       @ str_int (sentence_count s) @ '' sentences.'')) (\<lambda>_.
     bind_io (print ''   type counts:'') (\<lambda>_.
     bind_io (for_each (\<lambda>i.
                bind_io (lift_io (dict_get (type_counts s) i)) (\<lambda>n.
                print (''                '' @ rjust 2 (str_int i) @ '' '' @ rjust 8 (str_int n))))
              (sort (map fst (type_counts s)))) (\<lambda>_.
     bind_io (print []) (\<lambda>_.
     GeoInfo_report str_float (geo_info s) ''  ''))))"



section \<open>The info command\<close>

text \<open>
  The three aggregates of \<^verbatim>\<open>info\<close>. \<^verbatim>\<open>sender_info\<close> is a
  \<^verbatim>\<open>defaultdict(SenderInfo)\<close> keyed by the sender identifier.
\<close>

record info_state =
  sentences_info :: SentencesInfo
  sender_info :: "(string option \<times> SenderInfo) list"
  map_info :: DensityMap

definition info_init :: info_state where
  "info_init =
     \<lparr>sentences_info = SentencesInfo_init, sender_info = [], map_info = DensityMap_default\<rparr>"

text \<open>The body of the loop over the sentences.\<close>

definition info_step :: "bool \<Rightarrow> bool \<Rightarrow> info_state \<Rightarrow> sentence \<Rightarrow> exn + info_state" where
  "info_step individual show_map st sen =
     bind_exn (SentencesInfo_add (sentences_info st) sen) (\<lambda>si.
     bind_exn (if show_map
               then (case location sen of
                       None \<Rightarrow> Inr (map_info st)
                     | Some loc \<Rightarrow> DensityMap_add (map_info st) loc)
               else Inr (map_info st)) (\<lambda>mi.
     bind_exn (if individual
               then bind_exn
                      (SenderInfo_add
                         (case map_of (sender_info st) (mmsi sen) of
                            None \<Rightarrow> SenderInfo_init
                          | Some x \<Rightarrow> x) sen)
                      (\<lambda>x. Inr (dict_set (mmsi sen) x (sender_info st)))
               else Inr (sender_info st)) (\<lambda>sd.
     Inr \<lparr>sentences_info = si, sender_info = sd, map_info = mi\<rparr>)))"

fun info_consume :: "bool \<Rightarrow> bool \<Rightarrow> info_state \<Rightarrow> sentence list \<Rightarrow> exn + info_state" where
  "info_consume individual show_map st [] = Inr st"
| "info_consume individual show_map st (sen # sens) =
     bind_exn (info_step individual show_map st sen) (\<lambda>st'.
       info_consume individual show_map st' sens)"




section \<open>Invariants of the reachable states\<close>

text \<open>
  A tracker built by the constructor and \<^verbatim>\<open>add\<close> has \<^verbatim>\<open>min\<close> and \<^verbatim>\<open>max\<close>
  both unset or both set.
\<close>

definition tracker_ok :: "'a MaxMin \<Rightarrow> bool" where
  "tracker_ok m = (minv m = None \<longleftrightarrow> maxv m = None)"

definition geo_ok :: "GeoInfo \<Rightarrow> bool" where
  "geo_ok g = (tracker_ok (lon g) \<and> tracker_ok (lat g))"

section \<open>Computations that only print\<close>



section \<open>Properties of MaxMin\<close>

lemma add_fresh:
  "add (MaxMin_init None) v = Inr \<lparr>minv = Some v, maxv = Some (v::'a::linorder)\<rparr>"
  by (simp add: add_def valid_def MaxMin_init_def)

lemma add_set:
  "add \<lparr>minv = Some lo, maxv = Some hi\<rparr> v =
     Inr \<lparr>minv = Some (min lo v), maxv = Some (max hi (v::'a::linorder))\<rparr>"
  by (auto simp: add_def valid_def min_def max_def Let_def)

lemma add_all_set:
  "add_all \<lparr>minv = Some lo, maxv = Some hi\<rparr> vs =
     Inr \<lparr>minv = Some (fold (\<lambda>v a. min a v) vs lo),
          maxv = Some (fold (\<lambda>v a. max a v) vs (hi::'a::linorder))\<rparr>"
  by (induction vs arbitrary: lo hi) (simp_all add: add_set bind_exn_def)

lemma fold_min_Min: "fold (\<lambda>v a. min a v) vs (x::'a::linorder) = Min (set (x # vs))"
proof (induction vs arbitrary: x)
  case Nil
  show ?case by simp
next
  case (Cons v vs)
  have "Min (set (min x v # vs)) = Min (insert x (insert v (set vs)))"
    by (cases "set vs = {}") (simp_all add: min.assoc)
  with Cons show ?case by simp
qed

lemma fold_max_Max: "fold (\<lambda>v a. max a v) vs (x::'a::linorder) = Max (set (x # vs))"
proof (induction vs arbitrary: x)
  case Nil
  show ?case by simp
next
  case (Cons v vs)
  have "Max (set (max x v # vs)) = Max (insert x (insert v (set vs)))"
    by (cases "set vs = {}") (simp_all add: max.assoc)
  with Cons show ?case by simp
qed

lemma add_all_fresh:
  assumes "vs \<noteq> []"
  shows "add_all (MaxMin_init None) vs =
           Inr \<lparr>minv = Some (Min (set vs)), maxv = Some (Max (set (vs::'a::linorder list)))\<rparr>"
proof -
  from assms obtain x xs where vs: "vs = x # xs"
    by (cases vs) auto
  show ?thesis
    unfolding vs
    by (simp add: add_fresh bind_exn_def add_all_set fold_min_Min fold_max_Max)
qed

text \<open>
  C6. For every non-empty finite sequence of values fed to a default-constructed MaxMin,
  \<^verbatim>\<open>min\<close> is the minimum and \<^verbatim>\<open>max\<close> the maximum of the values added, and every
  permutation of the sequence leaves the tracker in the same state.
\<close>

theorem MaxMin_extremes:
  fixes vs :: "'a::linorder list"
  assumes "vs \<noteq> []"
  shows "add_all (MaxMin_init None) vs =
           Inr \<lparr>minv = Some (Min (set vs)), maxv = Some (Max (set vs))\<rparr>
         \<and> (\<forall>ws. mset ws = mset vs \<longrightarrow>
               add_all (MaxMin_init None) ws = add_all (MaxMin_init None) vs)"
proof (intro conjI allI impI)
  show "add_all (MaxMin_init None) vs =
          Inr \<lparr>minv = Some (Min (set vs)), maxv = Some (Max (set vs))\<rparr>"
    using assms by (rule add_all_fresh)
next
  fix ws :: "'a list"
  assume perm: "mset ws = mset vs"
  then have sets: "set ws = set vs"
    by (rule mset_eq_setD)
  from perm assms have "ws \<noteq> []"
    by auto
  then show "add_all (MaxMin_init None) ws = add_all (MaxMin_init None) vs"
    by (simp add: add_all_fresh assms sets)
qed

theorem MaxMin_extremes_witness:
  "add_all (MaxMin_init None) [3, -1, 4, 1, 5 :: real] = Inr \<lparr>minv = Some (-1), maxv = Some 5\<rparr>
   \<and> add_all (MaxMin_init None) [5, 1, 4, -1, 3 :: real]
       = add_all (MaxMin_init None) [3, -1, 4, 1, 5]"
proof -
  have ne: "[3, -1, 4, 1, 5 :: real] \<noteq> []"
    by simp
  have perm: "mset [5, 1, 4, -1, 3 :: real] = mset [3, -1, 4, 1, 5]"
    by (simp add: add_mset_commute)
  note main = MaxMin_extremes [OF ne]
  have lo: "Min (set [3, -1, 4, 1, 5 :: real]) = -1"
    by simp
  have hi: "Max (set [3, -1, 4, 1, 5 :: real]) = 5"
    by simp
  from main have "add_all (MaxMin_init None) [3, -1, 4, 1, 5 :: real]
      = Inr \<lparr>minv = Some (Min (set [3, -1, 4, 1, 5])), maxv = Some (Max (set [3, -1, 4, 1, 5]))\<rparr>"
    by (rule conjunct1)
  then have first: "add_all (MaxMin_init None) [3, -1, 4, 1, 5 :: real]
      = Inr \<lparr>minv = Some (-1), maxv = Some 5\<rparr>"
    unfolding lo hi .
  from main have "\<forall>ws. mset ws = mset [3, -1, 4, 1, 5 :: real] \<longrightarrow>
      add_all (MaxMin_init None) ws = add_all (MaxMin_init None) [3, -1, 4, 1, 5]"
    by (rule conjunct2)
  with perm have "add_all (MaxMin_init None) [5, 1, 4, -1, 3 :: real]
      = add_all (MaxMin_init None) [3, -1, 4, 1, 5]"
    by blast
  with first show ?thesis
    by (rule conjI)
qed

lemma add_all_reachable:
  "add_all (MaxMin_init None) vs = Inr m \<Longrightarrow>
     (vs = [] \<and> m = \<lparr>minv = None, maxv = None\<rparr>) \<or>
     (vs \<noteq> [] \<and> m = \<lparr>minv = Some (Min (set vs)), maxv = Some (Max (set (vs::'a::linorder list)))\<rparr>)"
proof (cases "vs = []")
  case True
  assume "add_all (MaxMin_init None) vs = Inr m"
  with True show ?thesis
    by (simp add: MaxMin_init_def)
next
  case False
  assume "add_all (MaxMin_init None) vs = Inr m"
  with False show ?thesis
    by (simp add: add_all_fresh)
qed

lemma add_keeps_range:
  "\<exists>m'. add \<lparr>minv = Some lo, maxv = Some hi\<rparr> v = Inr m' \<and>
     (\<exists>lo' hi'. minv m' = Some lo' \<and> maxv m' = Some hi' \<and> lo' \<le> lo \<and> hi \<le> (hi'::'a::linorder))"
  by (simp add: add_set)

text \<open>
  C7. For every MaxMin reached from the default-constructed state by \<^verbatim>\<open>add\<close>
  operations: whenever it is valid, \<^verbatim>\<open>min \<le> max\<close>; \<^verbatim>\<open>min\<close> and \<^verbatim>\<open>max\<close> are
  absent exactly when nothing has been added; and a further \<^verbatim>\<open>add\<close> succeeds, never
  increases \<^verbatim>\<open>min\<close> and never decreases \<^verbatim>\<open>max\<close>.
\<close>

theorem MaxMin_invariant:
  fixes vs :: "'a::linorder list"
  assumes "add_all (MaxMin_init None) vs = Inr m"
  shows "(valid m \<longrightarrow> (\<exists>lo hi. minv m = Some lo \<and> maxv m = Some hi \<and> lo \<le> hi))
         \<and> ((minv m = None \<or> maxv m = None) \<longleftrightarrow> vs = [])
         \<and> (valid m \<longleftrightarrow> vs \<noteq> [])
         \<and> (\<forall>v. \<exists>m'. add m v = Inr m' \<and>
               (valid m \<longrightarrow>
                  (\<exists>lo hi lo' hi'. minv m = Some lo \<and> maxv m = Some hi \<and>
                     minv m' = Some lo' \<and> maxv m' = Some hi' \<and> lo' \<le> lo \<and> hi \<le> hi')))"
proof (cases "vs = []")
  case True
  with add_all_reachable [OF assms] have m: "m = \<lparr>minv = None, maxv = None\<rparr>"
    by simp
  show ?thesis
    unfolding m using True by (simp add: valid_def add_def)
next
  case False
  with add_all_reachable [OF assms]
  have m: "m = \<lparr>minv = Some (Min (set vs)), maxv = Some (Max (set vs))\<rparr>"
    by simp
  have le: "Min (set vs) \<le> Max (set vs)"
    using False by (simp add: Min_le_iff)
  define lo where "lo = Min (set vs)"
  define hi where "hi = Max (set vs)"
  have m': "m = \<lparr>minv = Some lo, maxv = Some hi\<rparr>" and le': "lo \<le> hi"
    using m le by (simp_all add: lo_def hi_def)
  have step: "\<forall>v. \<exists>m'. add m v = Inr m' \<and>
      (valid m \<longrightarrow> (\<exists>l h lo' hi'. minv m = Some l \<and> maxv m = Some h \<and>
         minv m' = Some lo' \<and> maxv m' = Some hi' \<and> lo' \<le> l \<and> h \<le> hi'))"
    unfolding m' using add_keeps_range [of lo hi] by (simp add: valid_def)
  have rest: "(valid m \<longrightarrow> (\<exists>l h. minv m = Some l \<and> maxv m = Some h \<and> l \<le> h))
      \<and> ((minv m = None \<or> maxv m = None) \<longleftrightarrow> vs = [])
      \<and> (valid m \<longleftrightarrow> vs \<noteq> [])"
    unfolding m' using False le' by (simp add: valid_def)
  from rest step show ?thesis
    by simp
qed

theorem MaxMin_invariant_witness:
  "valid \<lparr>minv = Some (2::int), maxv = Some 7\<rparr>
   \<and> add \<lparr>minv = Some (2::int), maxv = Some 7\<rparr> 9 = Inr \<lparr>minv = Some 2, maxv = Some 9\<rparr>"
proof -
  have run: "add_all (MaxMin_init None) [7, 2 :: int] = Inr \<lparr>minv = Some 2, maxv = Some 7\<rparr>"
    by (simp add: add_fresh add_set bind_exn_def)
  from MaxMin_invariant [OF run] have "valid \<lparr>minv = Some (2::int), maxv = Some 7\<rparr>"
    by simp
  moreover have "add \<lparr>minv = Some (2::int), maxv = Some 7\<rparr> 9 = Inr \<lparr>minv = Some 2, maxv = Some 9\<rparr>"
    by (simp add: add_set)
  ultimately show ?thesis
    by (rule conjI)
qed

section \<open>Properties of the dictionaries and of SentencesInfo\<close>

lemma dict_set_key_list:
  "map fst (dict_set k v d) = (if k \<in> set (map fst d) then map fst d else map fst d @ [k])"
proof (induction d)
  case Nil
  show ?case by simp
next
  case (Cons p d)
  obtain a b where p: "p = (a, b)"
    by (cases p)
  show ?case
  proof (cases "a = k")
    case True
    then show ?thesis by (simp add: p)
  next
    case False
    then have "k \<noteq> a" by simp
    with False Cons show ?thesis by (simp add: p)
  qed
qed

lemma dict_set_distinct: "distinct (map fst d) \<Longrightarrow> distinct (map fst (dict_set k v d))"
  by (simp add: dict_set_key_list)

lemma dd_incr_keys: "set (map fst (dd_incr k d)) = insert k (set (map fst d))"
  unfolding dd_incr_def dict_set_key_list by auto

lemma dd_incr_distinct: "distinct (map fst d) \<Longrightarrow> distinct (map fst (dd_incr k d))"
  by (simp add: dd_incr_def dict_set_distinct)

lemma dict_set_sum:
  "sum_list (map snd (dict_set k v d)) =
     sum_list (map snd d) + v - (case map_of d k of None \<Rightarrow> 0 | Some n \<Rightarrow> (n::int))"
  by (induction d) auto

lemma dd_incr_sum: "sum_list (map snd (dd_incr k d)) = sum_list (map snd d) + 1"
  by (simp add: dd_incr_def dict_set_sum split: option.splits)

lemma add_tracker_ok:
  "tracker_ok m \<Longrightarrow> \<exists>m'. add m v = Inr m' \<and> tracker_ok (m'::'a::linorder MaxMin)"
  by (cases m) (auto simp: tracker_ok_def add_def valid_def Let_def)

lemma GeoInfo_add_ok: "geo_ok g \<Longrightarrow> \<exists>g'. GeoInfo_add g p = Inr g' \<and> geo_ok g'"
proof -
  assume ok: "geo_ok g"
  then obtain lo where lo: "add (lon g) (fst p) = Inr lo" "tracker_ok lo"
    using add_tracker_ok [of "lon g" "fst p"] by (auto simp: geo_ok_def)
  from ok obtain la where la: "add (lat g) (snd p) = Inr la" "tracker_ok la"
    using add_tracker_ok [of "lat g" "snd p"] by (auto simp: geo_ok_def)
  show ?thesis
    using lo la by (simp add: GeoInfo_add_def bind_exn_def geo_ok_def)
qed

lemma SentencesInfo_add_props:
  assumes "geo_ok (geo_info s)"
  shows "\<exists>s'. SentencesInfo_add s sen = Inr s'
           \<and> sentence_count s' = sentence_count s + 1
           \<and> type_counts s' = dd_incr (type_id sen) (type_counts s)
           \<and> sender_counts s' = dd_incr (mmsi sen) (sender_counts s)
           \<and> geo_ok (geo_info s')"
proof (cases "location sen")
  case None
  then show ?thesis
    using assms by (simp add: SentencesInfo_add_def)
next
  case (Some loc)
  from GeoInfo_add_ok [OF assms, of loc] obtain g' where
    "GeoInfo_add (geo_info s) loc = Inr g'" "geo_ok g'"
    by blast
  with Some show ?thesis
    by (simp add: SentencesInfo_add_def bind_exn_def)
qed

lemma SentencesInfo_add_all_props:
  assumes "geo_ok (geo_info s)" and "distinct (map fst (sender_counts s))"
  shows "\<exists>s'. SentencesInfo_add_all s sens = Inr s'
           \<and> sentence_count s' = sentence_count s + int (length sens)
           \<and> set (map fst (sender_counts s')) = set (map fst (sender_counts s)) \<union> mmsi ` set sens
           \<and> distinct (map fst (sender_counts s'))
           \<and> sum_list (map snd (type_counts s')) = sum_list (map snd (type_counts s)) + int (length sens)
           \<and> geo_ok (geo_info s')"
  using assms
proof (induction sens arbitrary: s)
  case Nil
  then show ?case by simp
next
  case (Cons sen sens)
  from SentencesInfo_add_props [OF Cons.prems(1), of sen] obtain s1 where
    s1: "SentencesInfo_add s sen = Inr s1"
        "sentence_count s1 = sentence_count s + 1"
        "type_counts s1 = dd_incr (type_id sen) (type_counts s)"
        "sender_counts s1 = dd_incr (mmsi sen) (sender_counts s)"
        "geo_ok (geo_info s1)"
    by blast
  have d1: "distinct (map fst (sender_counts s1))"
    using Cons.prems(2) by (simp add: s1 dd_incr_distinct)
  from Cons.IH [OF s1(5) d1] obtain s' where
    s': "SentencesInfo_add_all s1 sens = Inr s'"
        "sentence_count s' = sentence_count s1 + int (length sens)"
        "set (map fst (sender_counts s')) = set (map fst (sender_counts s1)) \<union> mmsi ` set sens"
        "distinct (map fst (sender_counts s'))"
        "sum_list (map snd (type_counts s')) = sum_list (map snd (type_counts s1)) + int (length sens)"
        "geo_ok (geo_info s')"
    by blast
  have "SentencesInfo_add_all s (sen # sens) = Inr s'"
    by (simp add: s1 s' bind_exn_def)
  moreover have "sentence_count s' = sentence_count s + int (length (sen # sens))"
    by (simp add: s1 s')
  moreover have "set (map fst (sender_counts s')) = set (map fst (sender_counts s)) \<union> mmsi ` set (sen # sens)"
    unfolding s'(3) s1(4) dd_incr_keys by auto
  moreover have "sum_list (map snd (type_counts s')) = sum_list (map snd (type_counts s)) + int (length (sen # sens))"
    by (simp add: s1 s' dd_incr_sum)
  ultimately show ?case
    using s'(4) s'(6) by blast
qed

lemma SentencesInfo_totals:
  "\<exists>s. SentencesInfo_add_all SentencesInfo_init sens = Inr s
       \<and> length (sender_counts s) = card (mmsi ` set sens)
       \<and> sentence_count s = int (length sens)
       \<and> sum_list (map snd (type_counts s)) = int (length sens)"
proof -
  have ok: "geo_ok (geo_info SentencesInfo_init)"
    by (simp add: SentencesInfo_init_def GeoInfo_init_def geo_ok_def tracker_ok_def MaxMin_init_def)
  have d: "distinct (map fst (sender_counts SentencesInfo_init))"
    by (simp add: SentencesInfo_init_def)
  from SentencesInfo_add_all_props [OF ok d, of sens] obtain s where
    s: "SentencesInfo_add_all SentencesInfo_init sens = Inr s"
       "sentence_count s = sentence_count SentencesInfo_init + int (length sens)"
       "set (map fst (sender_counts s)) = set (map fst (sender_counts SentencesInfo_init)) \<union> mmsi ` set sens"
       "distinct (map fst (sender_counts s))"
       "sum_list (map snd (type_counts s)) = sum_list (map snd (type_counts SentencesInfo_init)) + int (length sens)"
    by blast
  have "length (sender_counts s) = card (set (map fst (sender_counts s)))"
    using distinct_card [OF s(4)] by simp
  also have "\<dots> = card (mmsi ` set sens)"
    unfolding s(3) by (simp add: SentencesInfo_init_def)
  finally have "length (sender_counts s) = card (mmsi ` set sens)" .
  moreover have "sentence_count s = int (length sens)"
    using s(2) by (simp add: SentencesInfo_init_def)
  moreover have "sum_list (map snd (type_counts s)) = int (length sens)"
    using s(5) by (simp add: SentencesInfo_init_def)
  ultimately show ?thesis
    using s(1) by blast
qed

lemma print_open:
  "print l \<lparr>written = w, accepts = None\<rparr> = (Inr (), \<lparr>written = w @ [l], accepts = None\<rparr>)"
  by (simp add: print_def)

lemma for_each_open:
  assumes "\<And>x w. x \<in> set xs \<Longrightarrow>
             f x \<lparr>written = w, accepts = None\<rparr> = (Inr (), \<lparr>written = w @ [g x], accepts = None\<rparr>)"
  shows "for_each f xs \<lparr>written = w, accepts = None\<rparr>
           = (Inr (), \<lparr>written = w @ map g xs, accepts = None\<rparr>)"
  using assms
proof (induction xs arbitrary: w)
  case Nil
  show ?case
    by (simp add: return_io_def)
next
  case (Cons x xs)
  have head: "f x \<lparr>written = w, accepts = None\<rparr> = (Inr (), \<lparr>written = w @ [g x], accepts = None\<rparr>)"
    by (rule Cons.prems) simp
  have tail: "for_each f xs \<lparr>written = w @ [g x], accepts = None\<rparr>
           = (Inr (), \<lparr>written = (w @ [g x]) @ map g xs, accepts = None\<rparr>)"
    by (rule Cons.IH) (simp add: Cons.prems)
  show ?case
    by (simp add: bind_io_def head tail)
qed

lemma dict_get_present:
  assumes "k \<in> set (map fst d)"
  shows "dict_get d k = Inr (the (map_of d k))"
proof -
  from assms obtain v where "map_of d k = Some v"
    by (cases "map_of d k") (auto simp: map_of_eq_None_iff)
  then show ?thesis
    by (simp add: dict_get_def)
qed

lemma GeoInfo_report_open:
  "GeoInfo_report str_float g ind \<lparr>written = w, accepts = None\<rparr>
     = (Inr (), \<lparr>written = w @
          [ind @ ''    top left: '' @ str_opt str_float (maxv (lat g)) @ '', ''
             @ str_opt str_float (minv (lon g)),
           ind @ ''bottom right: '' @ str_opt str_float (minv (lat g)) @ '', ''
             @ str_opt str_float (maxv (lon g))], accepts = None\<rparr>)"
  by (simp add: GeoInfo_report_def bind_io_def print_open)

lemma SentencesInfo_report_open:
  "SentencesInfo_report str_float s \<lparr>written = w, accepts = None\<rparr>
     = (Inr (), \<lparr>written = w @
          [''Found '' @ str_int (int (length (sender_counts s))) @ '' senders in ''
             @ str_int (sentence_count s) @ '' sentences.'',
           ''   type counts:'']
          @ map (\<lambda>i. ''                '' @ rjust 2 (str_int i) @ '' ''
                       @ rjust 8 (str_int (the (map_of (type_counts s) i))))
              (sort (map fst (type_counts s)))
          @ [[],
             ''  '' @ ''    top left: '' @ str_opt str_float (maxv (lat (geo_info s))) @ '', ''
               @ str_opt str_float (minv (lon (geo_info s))),
             ''  '' @ ''bottom right: '' @ str_opt str_float (minv (lat (geo_info s))) @ '', ''
               @ str_opt str_float (maxv (lon (geo_info s)))], accepts = None\<rparr>)"
proof -
  let ?line = "\<lambda>i. ''                '' @ rjust 2 (str_int i) @ '' ''
                       @ rjust 8 (str_int (the (map_of (type_counts s) i)))"
  let ?body = "\<lambda>i. bind_io (lift_io (dict_get (type_counts s) i)) (\<lambda>n.
                print (''                '' @ rjust 2 (str_int i) @ '' '' @ rjust 8 (str_int n)))"
  have loop: "for_each ?body (sort (map fst (type_counts s))) \<lparr>written = w', accepts = None\<rparr>
      = (Inr (), \<lparr>written = w' @ map ?line (sort (map fst (type_counts s))), accepts = None\<rparr>)"
    for w'
  proof (rule for_each_open)
    fix x w''
    assume "x \<in> set (sort (map fst (type_counts s)))"
    then have "x \<in> set (map fst (type_counts s))"
      by simp
    then have "dict_get (type_counts s) x = Inr (the (map_of (type_counts s) x))"
      by (rule dict_get_present)
    then show "?body x \<lparr>written = w'', accepts = None\<rparr>
        = (Inr (), \<lparr>written = w'' @ [?line x], accepts = None\<rparr>)"
      by (simp add: bind_io_def lift_io_def print_open)
  qed
  show ?thesis
    unfolding SentencesInfo_report_def
    apply (simp only: bind_io_def print_open loop GeoInfo_report_open prod.case sum.case)
    apply simp
    done
qed

text \<open>
  C8. For every finite stream of N sentences in which K distinct sender identifiers occur,
  the SentencesInfo that has consumed the stream (no \<^verbatim>\<open>add\<close> raises) holds exactly K
  senders and a sentence count of N, and its per-type counts sum to N. Its report, printed
  to a sink that stays open, returns normally and writes the line
  \<^verbatim>\<open>Found K senders in N sentences.\<close> first, then the heading of the type counts, one line
  for each type in increasing order of the type, an empty line and the two lines of the
  geographic extent.
\<close>

theorem fleet_counts:
  "\<exists>s. SentencesInfo_add_all SentencesInfo_init sens = Inr s
       \<and> length (sender_counts s) = card (mmsi ` set sens)
       \<and> sentence_count s = int (length sens)
       \<and> sum_list (map snd (type_counts s)) = int (length sens)
       \<and> SentencesInfo_report str_float s \<lparr>written = [], accepts = None\<rparr>
           = (Inr (), \<lparr>written =
                [''Found '' @ str_int (int (card (mmsi ` set sens))) @ '' senders in ''
                   @ str_int (int (length sens)) @ '' sentences.'',
                 ''   type counts:'']
                @ map (\<lambda>i. ''                '' @ rjust 2 (str_int i) @ '' ''
                             @ rjust 8 (str_int (the (map_of (type_counts s) i))))
                    (sort (map fst (type_counts s)))
                @ [[],
                   ''  '' @ ''    top left: '' @ str_opt str_float (maxv (lat (geo_info s)))
                     @ '', '' @ str_opt str_float (minv (lon (geo_info s))),
                   ''  '' @ ''bottom right: '' @ str_opt str_float (minv (lat (geo_info s)))
                     @ '', '' @ str_opt str_float (maxv (lon (geo_info s)))],
                accepts = None\<rparr>)"
proof -
  from SentencesInfo_totals [of sens] obtain s where
    s: "SentencesInfo_add_all SentencesInfo_init sens = Inr s"
       "length (sender_counts s) = card (mmsi ` set sens)"
       "sentence_count s = int (length sens)"
       "sum_list (map snd (type_counts s)) = int (length sens)"
    by blast
  note report = SentencesInfo_report_open [of str_float s "[]", unfolded s(2) s(3) append_Nil]
  from s report show ?thesis
    by blast
qed

section \<open>Properties of Fields and SenderInfo\<close>

lemma map_of_dict_set: "map_of (dict_set k v d) = (map_of d)(k \<mapsto> v)"
  by (induction d) auto

lemma Fields_setitem_present:
  "\<exists>f'. Fields_setitem f key (Some s) = Inr f' \<and>
     map_of (vals f') =
       (if key = [] \<or> strip s = [] then map_of (vals f) else (map_of (vals f))(key \<mapsto> strip s))"
  by (simp add: Fields_setitem_def Let_def map_of_dict_set)

lemma SenderInfo_add_voyage:
  assumes "type_id sen = 5"
    and "Fields_setitem (sender_fields s) ''shipname'' (shipname sen) = Inr f1"
    and "Fields_setitem f1 ''destination'' (destination sen) = Inr f2"
  shows "\<exists>s'. SenderInfo_add s sen = Inr s' \<and> sender_fields s' = f2"
  using assms by (simp add: SenderInfo_add_def Let_def bind_exn_def)

text \<open>
  C1 (as amended). Capture of the descriptive fields is last-write-wins among non-empty
  values: adding a voyage/static-data (type 5) sentence whose \<^verbatim>\<open>shipname\<close> and
  \<^verbatim>\<open>destination\<close> are present sets each field to the stripped value when that is
  non-empty, overwriting what was stored, and leaves the field as it was when the stripped
  value is empty.
\<close>

theorem last_write_wins:
  assumes "type_id sen = 5" and "shipname sen = Some n" and "destination sen = Some d"
  shows "\<exists>s'. SenderInfo_add s sen = Inr s'
           \<and> Fields_getitem (sender_fields s') ''shipname'' =
               (if strip n = [] then Fields_getitem (sender_fields s) ''shipname''
                else Inr (strip n))
           \<and> Fields_getitem (sender_fields s') ''destination'' =
               (if strip d = [] then Fields_getitem (sender_fields s) ''destination''
                else Inr (strip d))"
proof -
  from Fields_setitem_present [of "sender_fields s" "''shipname''" n] obtain f1 where
    f1: "Fields_setitem (sender_fields s) ''shipname'' (Some n) = Inr f1"
        "map_of (vals f1) = (if strip n = [] then map_of (vals (sender_fields s))
                             else (map_of (vals (sender_fields s)))(''shipname'' \<mapsto> strip n))"
    by auto
  from Fields_setitem_present [of f1 "''destination''" d] obtain f2 where
    f2: "Fields_setitem f1 ''destination'' (Some d) = Inr f2"
        "map_of (vals f2) = (if strip d = [] then map_of (vals f1)
                             else (map_of (vals f1))(''destination'' \<mapsto> strip d))"
    by auto
  from SenderInfo_add_voyage [of sen s f1 f2] assms f1(1) f2(1) obtain s' where
    run: "SenderInfo_add s sen = Inr s'" and fs: "sender_fields s' = f2"
    by auto
  have "Fields_getitem f2 ''shipname'' =
          (if strip n = [] then Fields_getitem (sender_fields s) ''shipname'' else Inr (strip n))"
    by (simp add: Fields_getitem_def dict_get_def f1 f2)
  moreover have "Fields_getitem f2 ''destination'' =
          (if strip d = [] then Fields_getitem (sender_fields s) ''destination'' else Inr (strip d))"
    by (simp add: Fields_getitem_def dict_get_def f1 f2)
  ultimately show ?thesis
    using run fs by simp
qed

theorem last_write_wins_witness:
  "\<exists>s'. SenderInfo_add
          \<lparr>sender_mmsi = Some ''244660000'', sender_sentence_count = 1,
           sender_type_counts = [(5, 1)],
           sender_fields = \<lparr>vals = [(''shipname'', ''A''), (''destination'', ''X'')]\<rparr>\<rparr>
          \<lparr>type_id = 5, mmsi = Some ''244660000'', shipname = Some ''B '',
           destination = Some ''  '', location = None\<rparr> = Inr s'
        \<and> Fields_getitem (sender_fields s') ''shipname'' = Inr ''B''
        \<and> Fields_getitem (sender_fields s') ''destination'' = Inr ''X''"
  using last_write_wins [of
      "\<lparr>type_id = 5, mmsi = Some ''244660000'', shipname = Some ''B '',
        destination = Some ''  '', location = None\<rparr>" "''B ''" "''  ''"
      "\<lparr>sender_mmsi = Some ''244660000'', sender_sentence_count = 1,
        sender_type_counts = [(5, 1)],
        sender_fields = \<lparr>vals = [(''shipname'', ''A''), (''destination'', ''X'')]\<rparr>\<rparr>"]
  by (simp add: strip_def is_space_def Fields_getitem_def dict_get_def)

text \<open>
  Two type 5 sentences of one sender with the names \<^verbatim>\<open>A\<close> and \<^verbatim>\<open>B\<close>: the
  aggregator ends with \<^verbatim>\<open>B\<close>, the second value, not the first.
\<close>

theorem first_write_wins_counterexample:
  "SenderInfo_add_all SenderInfo_init
     [\<lparr>type_id = 5, mmsi = Some ''244660000'', shipname = Some ''A'',
        destination = Some ''X'', location = None\<rparr>,
      \<lparr>type_id = 5, mmsi = Some ''244660000'', shipname = Some ''B'',
        destination = Some ''Y'', location = None\<rparr>]
   = Inr \<lparr>sender_mmsi = Some ''244660000'', sender_sentence_count = 2,
          sender_type_counts = [(5, 2)],
          sender_fields = \<lparr>vals = [(''shipname'', ''B''), (''destination'', ''Y'')]\<rparr>\<rparr>"
  by (simp add: SenderInfo_add_def SenderInfo_init_def Fields_init_def Fields_setitem_def
      strip_def is_space_def dd_incr_def bind_exn_def Let_def)

text \<open>
  C2. A type 5 sentence whose \<^verbatim>\<open>shipname\<close> is absent makes \<^verbatim>\<open>SenderInfo.add\<close>
  raise \<^verbatim>\<open>AttributeError\<close>, and with it the loop of \<^verbatim>\<open>info\<close> run with per-sender
  detail: \<^verbatim>\<open>__setitem__\<close> strips the value before its test for an empty one.
\<close>

theorem absent_shipname_raises:
  "SenderInfo_add SenderInfo_init
     \<lparr>type_id = 5, mmsi = Some ''244660000'', shipname = None,
      destination = Some ''ROTTERDAM'', location = None\<rparr> = Inl AttributeError
   \<and> info_consume True False info_init
       [\<lparr>type_id = 5, mmsi = Some ''244660000'', shipname = None,
         destination = Some ''ROTTERDAM'', location = None\<rparr>] = Inl AttributeError"
  by (simp add: SenderInfo_add_def SenderInfo_init_def Fields_init_def Fields_setitem_def
      info_step_def info_init_def SentencesInfo_add_def SentencesInfo_init_def
      dd_incr_def bind_exn_def Let_def)

section \<open>Properties of the info command on a sink that closes\<close>




















section \<open>Properties of DensityMap\<close>

lemma map_exn_replicate:
  "f x = Inr y \<Longrightarrow> map_exn f (replicate n x) = Inr (replicate n y)"
  by (induction n) (simp_all add: bind_exn_def)

lemma funpow_max_zero: "(max (0::int) ^^ n) 0 = 0"
  by (induction n) simp_all

lemma py_max_zeros: "0 < n \<Longrightarrow> py_max (replicate n 0) = Inr 0"
  by (cases n) (simp_all add: py_max_def funpow_max_zero)

lemma concat_blanks: "concat (replicate n '' '') = replicate n (CHR '' '')"
  by (induction n) simp_all

lemma to_counts_fresh:
  "to_counts (DensityMap_init w h ind) = Inr (replicate (nat h) (replicate (nat w) 0))"
  by (simp add: to_counts_def DensityMap_init_def GeoInfo_valid_def GeoInfo_init_def
      MaxMin_init_def valid_def)

text \<open>
  C5. A DensityMap as the constructor leaves it, with no point added, has counts that are
  all zero, \<open>height\<close> rows of \<open>width\<close> cells. When the width and the height are
  positive, \<^verbatim>\<open>to_text\<close> raises nothing and returns the top border, \<open>height\<close> rows of
  \<open>width\<close> blanks between two \<^verbatim>\<open>|\<close>, and the bottom border, each after the indent;
  the borders are \<open>width\<close> times \<^verbatim>\<open>-\<close> between two \<^verbatim>\<open>+\<close>.
\<close>

theorem empty_map_renders_blank:
  assumes "0 < w" and "0 < h"
  shows "to_counts (DensityMap_init w h ind) = Inr (replicate (nat h) (replicate (nat w) 0))
       \<and> to_text (DensityMap_init w h ind)
           = Inr ([ind @ ''+'' @ replicate (nat w) (CHR ''-'') @ ''+'']
                  @ replicate (nat h) (ind @ ''|'' @ replicate (nat w) (CHR '' '') @ ''|'')
                  @ [ind @ ''+'' @ replicate (nat w) (CHR ''-'') @ ''+''])"
proof -
  let ?row = "replicate (nat w) (0::int)"
  from assms have w: "0 < nat w" and h: "0 < nat h"
    by simp_all
  have row_max: "py_max ?row = Inr 0"
    using w by (rule py_max_zeros)
  have maxima: "map_exn py_max (replicate (nat h) ?row) = Inr (replicate (nat h) 0)"
    using row_max by (rule map_exn_replicate)
  have max_count: "py_max (replicate (nat h) 0) = Inr 0"
    using h by (rule py_max_zeros)
  have cell: "value_to_text 0 0 = Inr '' ''"
    by (simp add: value_to_text_def)
  have cells: "map_exn (value_to_text 0) ?row = Inr (replicate (nat w) '' '')"
    using cell by (rule map_exn_replicate)
  have line: "bind_exn (map_exn (value_to_text 0) ?row)
                (\<lambda>cells. Inr (ind @ ''|'' @ concat cells @ ''|''))
              = Inr (ind @ ''|'' @ replicate (nat w) (CHR '' '') @ ''|'')"
    by (simp only: cells bind_exn_def sum.case concat_blanks)
  have rows: "map_exn (\<lambda>row. bind_exn (map_exn (value_to_text 0) row)
                (\<lambda>cells. Inr (ind @ ''|'' @ concat cells @ ''|''))) (replicate (nat h) ?row)
              = Inr (replicate (nat h) (ind @ ''|'' @ replicate (nat w) (CHR '' '') @ ''|''))"
    using line by (rule map_exn_replicate)
  have "to_text (DensityMap_init w h ind)
           = Inr ([ind @ ''+'' @ replicate (nat w) (CHR ''-'') @ ''+'']
                  @ replicate (nat h) (ind @ ''|'' @ replicate (nat w) (CHR '' '') @ ''|'')
                  @ [ind @ ''+'' @ replicate (nat w) (CHR ''-'') @ ''+''])"
    unfolding to_text_def to_counts_fresh
    by (simp only: bind_exn_def sum.case maxima max_count rows [unfolded bind_exn_def] Let_def DensityMap_init_def
        DensityMap.select_convs)
  with to_counts_fresh show ?thesis
    by blast
qed

theorem empty_map_renders_blank_witness:
  "(0::int) < 3 \<and> (0::int) < 2
   \<and> to_counts (DensityMap_init 3 2 ''>'') = Inr [[0, 0, 0], [0, 0, 0]]
   \<and> to_text (DensityMap_init 3 2 ''>'') = Inr [''>+---+'', ''>|   |'', ''>|   |'', ''>+---+'']"
proof -
  have w: "(0::int) < 3" and h: "(0::int) < 2"
    by simp_all
  from empty_map_renders_blank [OF w h, of "''>''"] show ?thesis
    by (simp add: numeral_2_eq_2 numeral_3_eq_3)
qed

text \<open>
  With a width of zero every row of counts is empty, and \<^verbatim>\<open>max\<close> of the first row
  raises \<^verbatim>\<open>ValueError\<close>.
\<close>

theorem zero_width_map_counterexample:
  "to_text (DensityMap_init 0 20 []) = Inl ValueError"
  by (simp add: to_text_def to_counts_fresh bind_exn_def py_max_def numeral_eq_Suc)

section \<open>Properties of the rounding\<close>

lemma pow2_powi: "pow2 e = 2 powi e"
  by (simp add: pow2_def power_int_def field_simps power_inverse)

lemma pow2_mono: "j \<le> k \<Longrightarrow> pow2 j \<le> pow2 k"
  by (simp add: pow2_powi power_int_increasing)

lemma pow2_diff: "pow2 (int a - int b) = 2 ^ a / 2 ^ b"
  by (simp add: pow2_powi power_int_diff)

lemma bitlen_bounds: "0 < n \<Longrightarrow> 2 ^ (bitlen n - 1) \<le> n \<and> n < 2 ^ bitlen n"
proof (induction n rule: bitlen.induct)
  case (1 n)
  show ?case
  proof (cases "n div 2 = 0")
    case True
    with 1(2) have "n = 1"
      by presburger
    moreover have "bitlen 1 = 1"
      by (simp add: bitlen.simps [of "Suc 0"] bitlen.simps [of 0])
    ultimately show ?thesis
      by simp
  next
    case False
    define h where "h = n div 2"
    from False have hpos: "0 < h"
      by (simp add: h_def)
    with 1(1) 1(2) have IH: "2 ^ (bitlen h - 1) \<le> h" "h < 2 ^ bitlen h"
      by (simp_all add: h_def)
    from hpos have bh: "0 < bitlen h"
      by (simp add: bitlen.simps [of h])
    have bn: "bitlen n = Suc (bitlen h)"
      using 1(2) by (simp add: bitlen.simps [of n] h_def)
    from bh have "(2::nat) ^ bitlen h = 2 * 2 ^ (bitlen h - 1)"
      by (cases "bitlen h") simp_all
    with IH(1) have "(2::nat) ^ bitlen h \<le> 2 * h"
      by simp
    also have "2 * h \<le> n"
      by (simp add: h_def)
    finally have lower: "2 ^ (bitlen n - 1) \<le> n"
      by (simp add: bn)
    have "n < 2 * h + 2"
      unfolding h_def by presburger
    also from IH(2) have "2 * h + 2 \<le> 2 * 2 ^ bitlen h"
      by simp
    finally have "n < 2 ^ bitlen n"
      by (simp add: bn)
    with lower show ?thesis
      by simp
  qed
qed

lemma ilog2_bounds:
  assumes "0 < x"
  shows "pow2 (ilog2 x) \<le> x \<and> x < pow2 (ilog2 x + 1)"
proof -
  obtain p q where pq: "quotient_of x = (p, q)"
    by (cases "quotient_of x")
  then have q: "0 < q" and x: "x = of_int p / of_int q"
    by (rule quotient_of_denom_pos, rule quotient_of_div)
  from assms q x have p: "0 < p"
    by (simp add: zero_less_divide_iff)
  define P Q where "P = nat p" and "Q = nat q"
  from p q have PQ: "0 < P" "0 < Q" and xPQ: "x = of_nat P / of_nat Q"
    by (simp_all add: P_def Q_def x)
  define k where "k = int (bitlen P) - int (bitlen Q)"
  from bitlen_bounds [OF PQ(1)] have P1: "(2::rat) ^ (bitlen P - 1) \<le> of_nat P"
    and P2: "of_nat P < (2::rat) ^ bitlen P"
    by (metis of_nat_le_iff of_nat_numeral of_nat_power, metis of_nat_less_iff of_nat_numeral of_nat_power)
  from bitlen_bounds [OF PQ(2)] have Q1: "(2::rat) ^ (bitlen Q - 1) \<le> of_nat Q"
    and Q2: "of_nat Q < (2::rat) ^ bitlen Q"
    by (metis of_nat_le_iff of_nat_numeral of_nat_power, metis of_nat_less_iff of_nat_numeral of_nat_power)
  from PQ have bP: "0 < bitlen P" and bQ: "0 < bitlen Q"
    by (simp_all add: bitlen.simps [of P] bitlen.simps [of Q])
  have Qpos: "(0::rat) < of_nat Q"
    using PQ(2) by simp
  have e1: "k - 1 = int (bitlen P - 1) - int (bitlen Q)"
    using bP by (cases "bitlen P") (simp_all add: k_def)
  have e2: "k + 1 = int (bitlen P) - int (bitlen Q - 1)"
    using bQ by (cases "bitlen Q") (simp_all add: k_def)
  have "pow2 (k - 1) = 2 ^ (bitlen P - 1) / 2 ^ bitlen Q"
    by (simp only: e1 pow2_diff)
  also have "\<dots> \<le> of_nat P / 2 ^ bitlen Q"
    using P1 by (simp add: divide_right_mono)
  also have "\<dots> \<le> of_nat P / of_nat Q"
    using Q2 Qpos by (simp add: frac_le)
  finally have lower: "pow2 (k - 1) \<le> x"
    by (simp add: xPQ)
  have "x < 2 ^ bitlen P / of_nat Q"
    using P2 Qpos by (simp add: xPQ divide_strict_right_mono)
  also have "\<dots> \<le> 2 ^ bitlen P / 2 ^ (bitlen Q - 1)"
    using Q1 by (simp add: frac_le)
  also have "\<dots> = pow2 (k + 1)"
    by (simp only: e2 pow2_diff)
  finally have upper: "x < pow2 (k + 1)" .
  have il: "ilog2 x = (if pow2 k \<le> x then k else k - 1)"
    by (simp add: ilog2_def pq k_def P_def Q_def Let_def)
  show ?thesis
  proof (cases "pow2 k \<le> x")
    case True
    with upper il show ?thesis
      by simp
  next
    case False
    with lower il show ?thesis
      by simp
  qed
qed

lemma ilog2_eqI:
  assumes "pow2 k \<le> x" and "x < pow2 (k + 1)"
  shows "ilog2 x = k"
proof -
  have "0 < pow2 k"
    by (simp add: pow2_powi)
  with assms(1) have "0 < x"
    by simp
  from ilog2_bounds [OF this] have b: "pow2 (ilog2 x) \<le> x" "x < pow2 (ilog2 x + 1)"
    by simp_all
  have "\<not> ilog2 x + 1 \<le> k"
  proof
    assume "ilog2 x + 1 \<le> k"
    then have "pow2 (ilog2 x + 1) \<le> pow2 k"
      by (rule pow2_mono)
    with b(2) assms(1) show False
      by simp
  qed
  moreover have "\<not> k + 1 \<le> ilog2 x"
  proof
    assume "k + 1 \<le> ilog2 x"
    then have "pow2 (k + 1) \<le> pow2 (ilog2 x)"
      by (rule pow2_mono)
    with b(1) assms(2) show False
      by simp
  qed
  ultimately show ?thesis
    by simp
qed


lemma pow2_pos: "0 < pow2 e"
  by (simp add: pow2_powi)

lemma round_half_even_int: "round_half_even (of_int m) = m"
  by (simp add: round_half_even_def)

lemma fl_eval:
  assumes "pow2 k \<le> \<bar>x\<bar>" and "\<bar>x\<bar> < pow2 (k + 1)"
  shows "fl x = sgn x * of_int (round_half_even (\<bar>x\<bar> / pow2 (k - 52))) * pow2 (k - 52)"
proof -
  have "ilog2 \<bar>x\<bar> = k"
    using assms by (rule ilog2_eqI)
  moreover have "x \<noteq> 0"
    using assms(1) pow2_pos [of k] by auto
  ultimately show ?thesis
    by (simp add: fl_def Let_def)
qed

lemma fl_exact:
  assumes "pow2 k \<le> \<bar>x\<bar>" and "\<bar>x\<bar> < pow2 (k + 1)" and "\<bar>x\<bar> / pow2 (k - 52) \<in> \<int>"
  shows "fl x = x"
proof -
  from assms(3) obtain m where m: "\<bar>x\<bar> / pow2 (k - 52) = of_int m"
    by (rule Ints_cases)
  have nz: "pow2 (k - 52) \<noteq> 0"
    using pow2_pos [of "k - 52"] by simp
  have "fl x = sgn x * of_int m * pow2 (k - 52)"
    by (simp only: fl_eval [OF assms(1) assms(2)] m round_half_even_int)
  also have "\<dots> = sgn x * (\<bar>x\<bar> / pow2 (k - 52) * pow2 (k - 52))"
    by (simp only: m mult.assoc)
  also have "\<dots> = sgn x * \<bar>x\<bar>"
    using nz by simp
  also have "\<dots> = x"
    by (rule sgn_mult_abs)
  finally show ?thesis .
qed

lemma fl_zero: "fl 0 = 0"
  by (simp add: fl_def)


lemma fl_1: "fl 1 = 1"
  by (rule fl_exact [of 0]) (simp_all add: pow2_def)

lemma fl_2: "fl 2 = 2"
  by (rule fl_exact [of 1]) (simp_all add: pow2_def)

lemma fl_4: "fl 4 = 4"
  by (rule fl_exact [of 2]) (simp_all add: pow2_def)

lemma fl_6: "fl 6 = 6"
  by (rule fl_exact [of 2]) (simp_all add: pow2_def)

lemma fl_7: "fl 7 = 7"
  by (rule fl_exact [of 2]) (simp_all add: pow2_def)

lemma fl_8: "fl 8 = 8"
  by (rule fl_exact [of 3]) (simp_all add: pow2_def)

lemma fl_10: "fl 10 = 10"
  by (rule fl_exact [of 3]) (simp_all add: pow2_def)

lemma fl_half: "fl (1 / 2) = 1 / 2"
  by (rule fl_exact [of "- 1"]) (simp_all add: pow2_def)

lemma fl_3_halves: "fl (3 / 2) = 3 / 2"
  by (rule fl_exact [of 0]) (simp_all add: pow2_def)

lemma fl_13_halves: "fl (13 / 2) = 13 / 2"
  by (rule fl_exact [of 2]) (simp_all add: pow2_def)

lemma fl_15_halves: "fl (15 / 2) = 15 / 2"
  by (rule fl_exact [of 2]) (simp_all add: pow2_def)

lemmas fl_values = fl_zero fl_1 fl_2 fl_4 fl_6 fl_7 fl_8 fl_10 fl_half fl_3_halves
  fl_13_halves fl_15_halves


lemma round_half_even_below:
  assumes "of_int f \<le> x" and "x < of_int f + 1 / 2"
  shows "round_half_even x = f"
proof -
  from assms have "\<lfloor>x\<rfloor> = f"
    by (intro floor_unique) simp_all
  with assms show ?thesis
    by (simp add: round_half_even_def)
qed


lemma fl_ten_eps: "fl (10 + epsilon) = 10"
proof -
  have r: "round_half_even (\<bar>10 + epsilon\<bar> / pow2 (3 - 52)) = 5629499534213120"
    by (rule round_half_even_below) (simp_all add: pow2_def epsilon_def)
  have "fl (10 + epsilon)
      = sgn (10 + epsilon) * of_int (round_half_even (\<bar>10 + epsilon\<bar> / pow2 (3 - 52)))
          * pow2 (3 - 52)"
    by (rule fl_eval) (simp_all add: pow2_def epsilon_def)
  also have "\<dots> = 10"
    unfolding r by (simp add: pow2_def epsilon_def)
  finally show ?thesis .
qed


section \<open>Properties of Bucketer\<close>

lemma linspace_0_10_6: "linspace 0 10 6 = Inr [0, 2, 4, 6, 8, 10]"
  by (simp add: linspace_def Let_def fl_values upto_rec1)

lemma linspace_6_8_5: "linspace 6 8 5 = Inr [6, 13 / 2, 7, 15 / 2, 8]"
  by (simp add: linspace_def Let_def fl_values upto_rec1)


lemma Bucketer_0_10_5:
  "Bucketer_init 0 10 5 =
     Inr \<lparr>min_val = 0, max_val = 10, bucket_count = 5, max_buckets = 4,
          bins = [0, 2, 4, 6, 8, 10]\<rparr>"
  by (simp add: Bucketer_init_def bind_exn_def fl_ten_eps linspace_0_10_6)

lemma Bucketer_7_7_4:
  "Bucketer_init 7 7 4 =
     Inr \<lparr>min_val = 7, max_val = 7, bucket_count = 4, max_buckets = 3,
          bins = [6, 13 / 2, 7, 15 / 2, 8]\<rparr>"
  by (simp add: Bucketer_init_def bind_exn_def fl_values linspace_6_8_5)


lemma bucket_0_10_5:
  assumes "0 \<le> v" and "v \<le> 10"
  shows "\<exists>i. bucket \<lparr>min_val = 0, max_val = 10, bucket_count = 5, max_buckets = 4,
          bins = [0, 2, 4, 6, 8, 10]\<rparr> v = Inr i \<and> 0 \<le> i \<and> i \<le> 4"
  using assms
  by (simp add: bucket_def digitize_def check_array_monotonic_def searchsorted_right_def
      bind_exn_def Let_def)

text \<open>
  C3. \<^verbatim>\<open>Bucketer(0, 10, 5)\<close> is constructed without an exception; its edges are
  0, 2, 4, 6, 8, 10, the last one because \<open>10 + epsilon\<close> rounds to 10. \<^verbatim>\<open>bucket(0)\<close> is
  0, \<^verbatim>\<open>bucket(10)\<close> is 4 (the clamp), \<^verbatim>\<open>bucket(5)\<close> is 2, and every value of the
  closed interval from 0 to 10 gets an index from 0 to 4.
\<close>

theorem Bucketer_example:
  "\<exists>b. Bucketer_init 0 10 5 = Inr b
       \<and> bucket b 0 = Inr 0
       \<and> bucket b 10 = Inr 4
       \<and> bucket b 5 = Inr 2
       \<and> (\<forall>v. 0 \<le> v \<and> v \<le> 10 \<longrightarrow> (\<exists>i. bucket b v = Inr i \<and> 0 \<le> i \<and> i \<le> 4))"
proof -
  let ?b = "\<lparr>min_val = 0, max_val = 10, bucket_count = 5, max_buckets = 4,
          bins = [0, 2, 4, 6, 8, 10]\<rparr>"
  have "bucket ?b 0 = Inr 0" "bucket ?b 10 = Inr 4" "bucket ?b 5 = Inr 2"
    by (simp_all add: bucket_def digitize_def check_array_monotonic_def searchsorted_right_def
      bind_exn_def Let_def)
  with Bucketer_0_10_5 bucket_0_10_5 show ?thesis
    by blast
qed

text \<open>
  C4. \<^verbatim>\<open>Bucketer(7, 7, 4)\<close> is constructed without an exception; its five edges divide
  the range from 6 to 8 evenly, and \<^verbatim>\<open>bucket(7)\<close> is 2, an index from 0 to 3.
\<close>

theorem Bucketer_degenerate:
  "\<exists>b. Bucketer_init 7 7 4 = Inr b
       \<and> bins b = [6, 13 / 2, 7, 15 / 2, 8]
       \<and> bucket b 7 = Inr 2"
proof -
  let ?b = "\<lparr>min_val = 7, max_val = 7, bucket_count = 4, max_buckets = 3,
          bins = [6, 13 / 2, 7, 15 / 2, 8]\<rparr>"
  have "bucket ?b 7 = Inr 2"
    by (simp add: bucket_def digitize_def check_array_monotonic_def searchsorted_right_def
      bind_exn_def Let_def)
  with Bucketer_7_7_4 show ?thesis
    by simp
qed

theorem Bucketer_example_witness:
  "\<exists>b. Bucketer_init 0 10 5 = Inr b \<and> (0::rat) \<le> 15 / 2 \<and> (15 / 2 :: rat) \<le> 10
       \<and> (\<exists>i. bucket b (15 / 2) = Inr i \<and> 0 \<le> i \<and> i \<le> 4)"
proof -
  from Bucketer_example obtain b where
    b: "Bucketer_init 0 10 5 = Inr b"
    and range: "\<forall>v. 0 \<le> v \<and> v \<le> 10 \<longrightarrow> (\<exists>i. bucket b v = Inr i \<and> 0 \<le> i \<and> i \<le> 4)"
    by blast
  have "(0::rat) \<le> 15 / 2 \<and> (15 / 2 :: rat) \<le> 10"
    by simp
  with range have "\<exists>i. bucket b (15 / 2) = Inr i \<and> 0 \<le> i \<and> i \<le> 4"
    by blast
  with b show ?thesis
    by auto
qed








end
